theory Spec2Isabelle
  imports Main
begin

section \<open>The JLink facade of \<^verbatim>\<open>src/jlink.ts\<close>\<close>

text \<open>
  The class \<^verbatim>\<open>Jlink\<close> selects one of two backend classes when it is constructed and
  forwards every method to the object it created. The model is a shallow embedding:
  the facade object is a record, the backend object lives in a store and is reached
  through the reference held in the field \<^verbatim>\<open>jlink\<close>, the process globals the code
  reads and writes (\<^verbatim>\<open>process.platform\<close>, \<^verbatim>\<open>process.arch\<close>, \<^verbatim>\<open>process.env\<close>) are
  fields of the process state, and a \<^verbatim>\<open>throw\<close> or a rejected promise is the left
  injection of a sum. An asynchronous method is modelled by its settled outcome; the
  facade does nothing after an \<^verbatim>\<open>await\<close> but hand the outcome on, so no interleaving
  is modelled.
\<close>

subsection \<open>Values of the host language\<close>

type_synonym ref = nat

type_synonym env = "string \<rightharpoonup> string"

text \<open>\<^verbatim>\<open>new Error(message)\<close>.\<close>

datatype error = Error string

text \<open>
  \<^verbatim>\<open>a || b\<close> where \<^verbatim>\<open>a\<close> is an optional string: \<^verbatim>\<open>undefined\<close> (\<open>None\<close>) and the empty
  string are the falsy values of that type, every other string is truthy.
\<close>

definition or_default :: "string option \<Rightarrow> string \<Rightarrow> string" where
  "or_default a b = (case a of None \<Rightarrow> b | Some s \<Rightarrow> if s = [] then b else s)"

text \<open>
  A string of the host language is a sequence of 16-bit code units. It is modelled by
  the bytes of its UTF-8 form, which has one byte \<open>00\<close> for each NUL character; a
  surrogate that is not half of a pair, which UTF-8 proper leaves out, is written as the
  three bytes the same scheme gives its code unit: \<open>ED\<close>, a byte from \<open>A0\<close> to \<open>BF\<close>, a
  byte from \<open>80\<close> to \<open>BF\<close>. Two strings are equal exactly when their bytes are.

  \<^verbatim>\<open>process.env[name] = value\<close> does not keep every string as it is. Node converts the
  value to UTF-8, where each lone surrogate becomes U+FFFD (the bytes \<open>EF BF BD\<close>), and
  hands the bytes to the operating system as a C string, which ends at the first NUL.
  \<open>env_string value\<close> is what the variable holds, and what reading it gives, after
  the assignment. The limits an operating system puts on the size of the environment
  are not modelled.
\<close>

fun replace_lone_surrogates :: "string \<Rightarrow> string" where
  "replace_lone_surrogates (a # b # c # s) =
     (if a = CHR 0xED \<and> (0xA0 :: nat) \<le> of_char b
      then CHR 0xEF # CHR 0xBF # CHR 0xBD # replace_lone_surrogates s
      else a # replace_lone_surrogates (b # c # s))"
| "replace_lone_surrogates s = s"


definition env_string :: "string \<Rightarrow> string" where
  "env_string s = takeWhile (\<lambda>c. c \<noteq> CHR 0x00) (replace_lone_surrogates s)"

subsection \<open>The backend interface\<close>

text \<open>
  The two backend classes \<^verbatim>\<open>JlinkInstaller\<close> and \<^verbatim>\<open>JlinkBundle\<close> and their abstract base
  \<^verbatim>\<open>JlinkAbstract\<close> are imported by \<^verbatim>\<open>jlink.ts\<close>. Their implementation is a parameter of
  the model: a table from the class to its constructor and methods. A method runs on
  the fields \<open>'b\<close> of its own object and on the environment of the process, and
  returns or fails with a value of \<open>'e\<close>. \<open>'cb\<close> is the type of progress callbacks and
  \<open>'d\<close> the type of \<^verbatim>\<open>JlinkDownload\<close> records; the facade looks into neither. A method
  whose result the facade never reads has result type \<open>unit\<close>.
\<close>

datatype strategy = JlinkInstaller | JlinkBundle

type_synonym ('b, 'e, 'a) meth = "'b \<Rightarrow> env \<Rightarrow> ('e + 'a) \<times> 'b \<times> env"

record ('b, 'e, 'cb, 'd) JlinkAbstract =
  backend_new :: "string \<Rightarrow> string \<Rightarrow> 'b"
  backend_listLocalInstalled :: "('b, 'e, string list) meth"
  backend_listRemote :: "('b, 'e, 'd list) meth"
  backend_download :: "string \<Rightarrow> 'cb option \<Rightarrow> ('b, 'e, string) meth"
  backend_downloadFromSegger :: "string \<Rightarrow> 'cb option \<Rightarrow> ('b, 'e, string) meth"
  backend_install :: "string option \<Rightarrow> ('b, 'e, unit) meth"
  backend_downloadAndInstall :: "string \<Rightarrow> 'cb \<Rightarrow> ('b, 'e, unit) meth"
  backend_getVersion :: "('b, 'e, string) meth"
  backend_upload :: "string \<Rightarrow> string \<Rightarrow> 'cb option \<Rightarrow> ('b, 'e, string) meth"
  backend_setJlinkPath :: "string \<Rightarrow> ('b, 'e, unit) meth"
  backend_getJlinkPath :: "('b, 'e, string) meth"
  backend_setJlinkVersion :: "string \<Rightarrow> ('b, 'e, unit) meth"
  backend_getJlinkVersion :: "('b, 'e, string) meth"
  backend_acceptLicense :: "('b, 'e, unit) meth"
  backend_declineLicense :: "('b, 'e, unit) meth"
  backend_showLicense :: "('b, 'e, string) meth"

text \<open>A method call as a test double records it: the method's name with its arguments.\<close>

datatype 'cb call =
    ListLocalInstalled
  | ListRemote
  | Download string "'cb option"
  | DownloadFromSegger string "'cb option"
  | Install "string option"
  | DownloadAndInstall string 'cb
  | GetVersion
  | Upload string string "'cb option"
  | SetJlinkPath string
  | GetJlinkPath
  | SetJlinkVersion string
  | GetJlinkVersion
  | AcceptLicense
  | DeclineLicense
  | ShowLicense

subsection \<open>The process state\<close>

text \<open>
  A backend object carries its class, which decides the methods a call reaches. A
  reference of the host language always points to an object, so the store is total;
  \<open>next_ref\<close> is the first address no \<^verbatim>\<open>new\<close> has handed out yet. \<open>delegated\<close> is the
  record of the calls made on backend objects, oldest first.
\<close>

record 'b obj =
  cls :: strategy
  data :: 'b

record ('b, 'cb) process =
  proc_platform :: string
  proc_arch :: string
  proc_env :: env
  store :: "ref \<Rightarrow> 'b obj"
  next_ref :: ref
  delegated :: "(ref \<times> 'cb call) list"

definition alloc :: "'b obj \<Rightarrow> ('b, 'cb) process \<Rightarrow> ref \<times> ('b, 'cb) process" where
  "alloc ob p =
     (next_ref p, p\<lparr>store := (store p)(next_ref p := ob), next_ref := Suc (next_ref p)\<rparr>)"

text \<open>
  \<^verbatim>\<open>r.name(args)\<close>: the method \<open>m\<close> of the class of the object at \<open>r\<close> runs on that
  object's fields; the object and the environment are written back and the call is
  recorded.
\<close>

definition invoke ::
  "(strategy \<Rightarrow> ('b, 'e, 'cb, 'd) JlinkAbstract) \<Rightarrow> ref \<Rightarrow> 'cb call \<Rightarrow>
   (('b, 'e, 'cb, 'd) JlinkAbstract \<Rightarrow> ('b, 'e, 'a) meth) \<Rightarrow>
   ('b, 'cb) process \<Rightarrow> ('e + 'a) \<times> ('b, 'cb) process" where
  "invoke C r c m p =
     (let ob = store p r in
      case m (C (cls ob)) (data ob) (proc_env p) of
        (res, b', env') \<Rightarrow>
          (res, p\<lparr>proc_env := env',
                  store := (store p)(r := ob\<lparr>data := b'\<rparr>),
                  delegated := delegated p @ [(r, c)]\<rparr>))"

subsection \<open>The facade\<close>

record Jlink =
  installType :: string
  os :: string
  arch :: string
  jlink :: ref

text \<open>
  The constructor (lines 16 to 35). The three arguments are optional. The result is the
  new facade object, or the error thrown; the process state is returned in both cases.
  The object under construction is not reachable once the constructor has thrown, so
  the fields assigned before the \<^verbatim>\<open>switch\<close> are kept only where it returns. The
  constructors of the backend classes are taken to return an object: the
  specification names the invalid install type as the only failure of the construction.
\<close>

definition Jlink_constructor ::
  "(strategy \<Rightarrow> ('b, 'e, 'cb, 'd) JlinkAbstract) \<Rightarrow>
   string option \<Rightarrow> string option \<Rightarrow> string option \<Rightarrow>
   ('b, 'cb) process \<Rightarrow> (error + Jlink) \<times> ('b, 'cb) process" where
  "Jlink_constructor C installType_arg os_arg arch_arg p =
     (let installType' = or_default installType_arg ''installer'';
          os' = or_default os_arg (proc_platform p);
          arch' = or_default arch_arg (proc_arch p)
      in if installType' = ''installer'' then
           (case alloc \<lparr>cls = JlinkInstaller,
                         data = backend_new (C JlinkInstaller) os' arch'\<rparr> p of
              (r, p') \<Rightarrow>
                (Inr \<lparr>installType = installType', os = os', arch = arch', jlink = r\<rparr>, p'))
         else if installType' = ''bundle'' then
           (case alloc \<lparr>cls = JlinkBundle,
                         data = backend_new (C JlinkBundle) os' arch'\<rparr> p of
              (r, p') \<Rightarrow>
                (Inr \<lparr>installType = installType', os = os', arch = arch', jlink = r\<rparr>, p'))
         else (Inl (Error ''Invalid install type''), p))"

text \<open>
  \<^verbatim>\<open>this.jlink.name(args)\<close> inside a method of the facade. No method assigns to a field
  of \<^verbatim>\<open>this\<close>; the facade object is returned next to the outcome so that this can be
  stated.
\<close>

definition delegate ::
  "(strategy \<Rightarrow> ('b, 'e, 'cb, 'd) JlinkAbstract) \<Rightarrow> Jlink \<Rightarrow> 'cb call \<Rightarrow>
   (('b, 'e, 'cb, 'd) JlinkAbstract \<Rightarrow> ('b, 'e, 'a) meth) \<Rightarrow>
   ('b, 'cb) process \<Rightarrow> ('e + 'a) \<times> Jlink \<times> ('b, 'cb) process" where
  "delegate C this c m p = (case invoke C (jlink this) c m p of (res, p') \<Rightarrow> (res, this, p'))"

text \<open>
  A method body that is the statement \<^verbatim>\<open>this.jlink.name(args);\<close> or
  \<^verbatim>\<open>await this.jlink.name(args);\<close> with no \<^verbatim>\<open>return\<close>: a failure passes, a value is
  dropped.
\<close>

definition discard :: "('e + 'a) \<times> 's \<Rightarrow> ('e + unit) \<times> 's" where
  "discard r = (case r of (Inl e, s) \<Rightarrow> (Inl e, s) | (Inr _, s) \<Rightarrow> (Inr (), s))"

definition listLocalInstalled ::
  "(strategy \<Rightarrow> ('b, 'e, 'cb, 'd) JlinkAbstract) \<Rightarrow> Jlink \<Rightarrow>
   ('b, 'cb) process \<Rightarrow> ('e + string list) \<times> Jlink \<times> ('b, 'cb) process" where
  "listLocalInstalled C this p =
     delegate C this ListLocalInstalled (\<lambda>M. backend_listLocalInstalled M) p"

definition listRemote ::
  "(strategy \<Rightarrow> ('b, 'e, 'cb, 'd) JlinkAbstract) \<Rightarrow> Jlink \<Rightarrow>
   ('b, 'cb) process \<Rightarrow> ('e + 'd list) \<times> Jlink \<times> ('b, 'cb) process" where
  "listRemote C this p = delegate C this ListRemote (\<lambda>M. backend_listRemote M) p"

definition download ::
  "(strategy \<Rightarrow> ('b, 'e, 'cb, 'd) JlinkAbstract) \<Rightarrow> Jlink \<Rightarrow> string \<Rightarrow> 'cb option \<Rightarrow>
   ('b, 'cb) process \<Rightarrow> ('e + string) \<times> Jlink \<times> ('b, 'cb) process" where
  "download C this version progressUpdate p =
     delegate C this (Download version progressUpdate)
       (\<lambda>M. backend_download M version progressUpdate) p"

definition downloadFromSegger ::
  "(strategy \<Rightarrow> ('b, 'e, 'cb, 'd) JlinkAbstract) \<Rightarrow> Jlink \<Rightarrow> string \<Rightarrow> 'cb option \<Rightarrow>
   ('b, 'cb) process \<Rightarrow> ('e + string) \<times> Jlink \<times> ('b, 'cb) process" where
  "downloadFromSegger C this version progressUpdate p =
     delegate C this (DownloadFromSegger version progressUpdate)
       (\<lambda>M. backend_downloadFromSegger M version progressUpdate) p"

definition install ::
  "(strategy \<Rightarrow> ('b, 'e, 'cb, 'd) JlinkAbstract) \<Rightarrow> Jlink \<Rightarrow> string option \<Rightarrow>
   ('b, 'cb) process \<Rightarrow> ('e + unit) \<times> Jlink \<times> ('b, 'cb) process" where
  "install C this installPath p =
     discard (delegate C this (Install installPath) (\<lambda>M. backend_install M installPath) p)"

definition downloadAndInstall ::
  "(strategy \<Rightarrow> ('b, 'e, 'cb, 'd) JlinkAbstract) \<Rightarrow> Jlink \<Rightarrow> string \<Rightarrow> 'cb \<Rightarrow>
   ('b, 'cb) process \<Rightarrow> ('e + unit) \<times> Jlink \<times> ('b, 'cb) process" where
  "downloadAndInstall C this version progressUpdate p =
     discard (delegate C this (DownloadAndInstall version progressUpdate)
       (\<lambda>M. backend_downloadAndInstall M version progressUpdate) p)"

definition getVersion ::
  "(strategy \<Rightarrow> ('b, 'e, 'cb, 'd) JlinkAbstract) \<Rightarrow> Jlink \<Rightarrow>
   ('b, 'cb) process \<Rightarrow> ('e + string) \<times> Jlink \<times> ('b, 'cb) process" where
  "getVersion C this p = delegate C this GetVersion (\<lambda>M. backend_getVersion M) p"

definition upload ::
  "(strategy \<Rightarrow> ('b, 'e, 'cb, 'd) JlinkAbstract) \<Rightarrow> Jlink \<Rightarrow>
   string \<Rightarrow> string \<Rightarrow> 'cb option \<Rightarrow>
   ('b, 'cb) process \<Rightarrow> ('e + string) \<times> Jlink \<times> ('b, 'cb) process" where
  "upload C this filePath version progressUpdate p =
     delegate C this (Upload filePath version progressUpdate)
       (\<lambda>M. backend_upload M filePath version progressUpdate) p"

text \<open>
  Lines 127 to 130: the environment variable is assigned first, and holds what an
  assignment to \<^verbatim>\<open>process.env\<close> stores; then the backend is told the path as given.
\<close>

definition setJlinkPath ::
  "(strategy \<Rightarrow> ('b, 'e, 'cb, 'd) JlinkAbstract) \<Rightarrow> Jlink \<Rightarrow> string \<Rightarrow>
   ('b, 'cb) process \<Rightarrow> ('e + unit) \<times> Jlink \<times> ('b, 'cb) process" where
  "setJlinkPath C this path p =
     discard (delegate C this (SetJlinkPath path) (\<lambda>M. backend_setJlinkPath M path)
       (p\<lparr>proc_env := (proc_env p)(''NRF_JLINK_PATH'' \<mapsto> env_string path)\<rparr>))"

definition getJlinkPath ::
  "(strategy \<Rightarrow> ('b, 'e, 'cb, 'd) JlinkAbstract) \<Rightarrow> Jlink \<Rightarrow>
   ('b, 'cb) process \<Rightarrow> ('e + string) \<times> Jlink \<times> ('b, 'cb) process" where
  "getJlinkPath C this p = delegate C this GetJlinkPath (\<lambda>M. backend_getJlinkPath M) p"

definition setJlinkVersion ::
  "(strategy \<Rightarrow> ('b, 'e, 'cb, 'd) JlinkAbstract) \<Rightarrow> Jlink \<Rightarrow> string \<Rightarrow>
   ('b, 'cb) process \<Rightarrow> ('e + unit) \<times> Jlink \<times> ('b, 'cb) process" where
  "setJlinkVersion C this version p =
     discard (delegate C this (SetJlinkVersion version)
       (\<lambda>M. backend_setJlinkVersion M version) p)"

definition getJlinkVersion ::
  "(strategy \<Rightarrow> ('b, 'e, 'cb, 'd) JlinkAbstract) \<Rightarrow> Jlink \<Rightarrow>
   ('b, 'cb) process \<Rightarrow> ('e + string) \<times> Jlink \<times> ('b, 'cb) process" where
  "getJlinkVersion C this p =
     delegate C this GetJlinkVersion (\<lambda>M. backend_getJlinkVersion M) p"

definition acceptLicense ::
  "(strategy \<Rightarrow> ('b, 'e, 'cb, 'd) JlinkAbstract) \<Rightarrow> Jlink \<Rightarrow>
   ('b, 'cb) process \<Rightarrow> ('e + unit) \<times> Jlink \<times> ('b, 'cb) process" where
  "acceptLicense C this p =
     discard (delegate C this AcceptLicense (\<lambda>M. backend_acceptLicense M) p)"

definition declineLicense ::
  "(strategy \<Rightarrow> ('b, 'e, 'cb, 'd) JlinkAbstract) \<Rightarrow> Jlink \<Rightarrow>
   ('b, 'cb) process \<Rightarrow> ('e + unit) \<times> Jlink \<times> ('b, 'cb) process" where
  "declineLicense C this p =
     discard (delegate C this DeclineLicense (\<lambda>M. backend_declineLicense M) p)"

definition showLicense ::
  "(strategy \<Rightarrow> ('b, 'e, 'cb, 'd) JlinkAbstract) \<Rightarrow> Jlink \<Rightarrow>
   ('b, 'cb) process \<Rightarrow> ('e + string) \<times> Jlink \<times> ('b, 'cb) process" where
  "showLicense C this p = delegate C this ShowLicense (\<lambda>M. backend_showLicense M) p"

subsection \<open>Calling the facade and the backend by name\<close>

text \<open>
  To speak of every operation at once, a call is run from its recorded form. The
  results of the operations are put into one type of values; \<^verbatim>\<open>undefined\<close> is the value
  of a method that returns nothing.
\<close>

datatype 'd js_value = Undefined | VString string | VStrings "string list" | VDownloads "'d list"

definition returning :: "('a \<Rightarrow> 'v) \<Rightarrow> ('e + 'a) \<times> 's \<Rightarrow> ('e + 'v) \<times> 's" where
  "returning f r = (case r of (Inl e, s) \<Rightarrow> (Inl e, s) | (Inr a, s) \<Rightarrow> (Inr (f a), s))"

fun backend_call ::
  "('b, 'e, 'cb, 'd) JlinkAbstract \<Rightarrow> 'cb call \<Rightarrow> ('b, 'e, 'd js_value) meth" where
  "backend_call M ListLocalInstalled b e = returning VStrings (backend_listLocalInstalled M b e)"
| "backend_call M ListRemote b e = returning VDownloads (backend_listRemote M b e)"
| "backend_call M (Download v cb) b e = returning VString (backend_download M v cb b e)"
| "backend_call M (DownloadFromSegger v cb) b e =
     returning VString (backend_downloadFromSegger M v cb b e)"
| "backend_call M (Install ip) b e = returning (\<lambda>_. Undefined) (backend_install M ip b e)"
| "backend_call M (DownloadAndInstall v cb) b e =
     returning (\<lambda>_. Undefined) (backend_downloadAndInstall M v cb b e)"
| "backend_call M GetVersion b e = returning VString (backend_getVersion M b e)"
| "backend_call M (Upload f v cb) b e = returning VString (backend_upload M f v cb b e)"
| "backend_call M (SetJlinkPath x) b e =
     returning (\<lambda>_. Undefined) (backend_setJlinkPath M x b e)"
| "backend_call M GetJlinkPath b e = returning VString (backend_getJlinkPath M b e)"
| "backend_call M (SetJlinkVersion v) b e =
     returning (\<lambda>_. Undefined) (backend_setJlinkVersion M v b e)"
| "backend_call M GetJlinkVersion b e = returning VString (backend_getJlinkVersion M b e)"
| "backend_call M AcceptLicense b e = returning (\<lambda>_. Undefined) (backend_acceptLicense M b e)"
| "backend_call M DeclineLicense b e = returning (\<lambda>_. Undefined) (backend_declineLicense M b e)"
| "backend_call M ShowLicense b e = returning VString (backend_showLicense M b e)"

fun Jlink_call ::
  "(strategy \<Rightarrow> ('b, 'e, 'cb, 'd) JlinkAbstract) \<Rightarrow> 'cb call \<Rightarrow> Jlink \<Rightarrow>
   ('b, 'cb) process \<Rightarrow> ('e + 'd js_value) \<times> Jlink \<times> ('b, 'cb) process" where
  "Jlink_call C ListLocalInstalled this p = returning VStrings (listLocalInstalled C this p)"
| "Jlink_call C ListRemote this p = returning VDownloads (listRemote C this p)"
| "Jlink_call C (Download v cb) this p = returning VString (download C this v cb p)"
| "Jlink_call C (DownloadFromSegger v cb) this p =
     returning VString (downloadFromSegger C this v cb p)"
| "Jlink_call C (Install ip) this p = returning (\<lambda>_. Undefined) (install C this ip p)"
| "Jlink_call C (DownloadAndInstall v cb) this p =
     returning (\<lambda>_. Undefined) (downloadAndInstall C this v cb p)"
| "Jlink_call C GetVersion this p = returning VString (getVersion C this p)"
| "Jlink_call C (Upload f v cb) this p = returning VString (upload C this f v cb p)"
| "Jlink_call C (SetJlinkPath x) this p = returning (\<lambda>_. Undefined) (setJlinkPath C this x p)"
| "Jlink_call C GetJlinkPath this p = returning VString (getJlinkPath C this p)"
| "Jlink_call C (SetJlinkVersion v) this p =
     returning (\<lambda>_. Undefined) (setJlinkVersion C this v p)"
| "Jlink_call C GetJlinkVersion this p = returning VString (getJlinkVersion C this p)"
| "Jlink_call C AcceptLicense this p = returning (\<lambda>_. Undefined) (acceptLicense C this p)"
| "Jlink_call C DeclineLicense this p = returning (\<lambda>_. Undefined) (declineLicense C this p)"
| "Jlink_call C ShowLicense this p = returning VString (showLicense C this p)"

text \<open>
  The specification's reading of a facade operation, to be compared with the code: one
  call of the operation of the same name on the backend the facade holds, with the same
  arguments; the backend's outcome is the outcome; the facade object is left as it was.
\<close>

definition forward ::
  "(strategy \<Rightarrow> ('b, 'e, 'cb, 'd) JlinkAbstract) \<Rightarrow> 'cb call \<Rightarrow> Jlink \<Rightarrow>
   ('b, 'cb) process \<Rightarrow> ('e + 'd js_value) \<times> Jlink \<times> ('b, 'cb) process" where
  "forward C c this p =
     (let r = jlink this; ob = store p r in
      case backend_call (C (cls ob)) c (data ob) (proc_env p) of
        (res, b', env') \<Rightarrow>
          (res, this,
           p\<lparr>proc_env := env',
             store := (store p)(r := ob\<lparr>data := b'\<rparr>),
             delegated := delegated p @ [(r, c)]\<rparr>))"

text \<open>
  The one effect a facade operation has of its own, before it delegates: \<^verbatim>\<open>setJlinkPath\<close>
  writes the environment variable (line 128).
\<close>

definition own_effect :: "'cb call \<Rightarrow> ('b, 'cb) process \<Rightarrow> ('b, 'cb) process" where
  "own_effect c p =
     (case c of
        SetJlinkPath path \<Rightarrow>
          p\<lparr>proc_env := (proc_env p)(''NRF_JLINK_PATH'' \<mapsto> env_string path)\<rparr>
      | _ \<Rightarrow> p)"

subsection \<open>The configuration methods of the backend\<close>

text \<open>
  Modelled from the spec: the fields in which a backend object of the absent class
  \<^verbatim>\<open>JlinkAbstract\<close> keeps its configuration, "the backend's recorded path" and the
  version "the backend should target". A backend may have more fields.
\<close>

record backend =
  jlinkPath :: string
  jlinkVersion :: string

text \<open>
  Modelled from the spec: \<^verbatim>\<open>setJlinkPath\<close> of the absent class \<^verbatim>\<open>JlinkAbstract\<close>, which
  is informed of the library path and records it.
\<close>

definition JlinkAbstract_setJlinkPath :: "string \<Rightarrow> ('z backend_scheme, 'e, unit) meth" where
  "JlinkAbstract_setJlinkPath path b e = (Inr (), b\<lparr>jlinkPath := path\<rparr>, e)"

text \<open>
  Modelled from the spec: \<^verbatim>\<open>getJlinkPath\<close> of the absent class \<^verbatim>\<open>JlinkAbstract\<close>, whose
  result is the current library path.
\<close>

definition JlinkAbstract_getJlinkPath :: "('z backend_scheme, 'e, string) meth" where
  "JlinkAbstract_getJlinkPath b e = (Inr (jlinkPath b), b, e)"

text \<open>
  Modelled from the spec: \<^verbatim>\<open>setJlinkVersion\<close> of the absent class \<^verbatim>\<open>JlinkAbstract\<close>,
  which records the version the backend should target.
\<close>

definition JlinkAbstract_setJlinkVersion ::
  "string \<Rightarrow> ('z backend_scheme, 'e, unit) meth" where
  "JlinkAbstract_setJlinkVersion version b e = (Inr (), b\<lparr>jlinkVersion := version\<rparr>, e)"

text \<open>
  Modelled from the spec: \<^verbatim>\<open>getJlinkVersion\<close> of the absent class \<^verbatim>\<open>JlinkAbstract\<close>,
  whose result is the version currently targeted.
\<close>

definition JlinkAbstract_getJlinkVersion :: "('z backend_scheme, 'e, string) meth" where
  "JlinkAbstract_getJlinkVersion b e = (Inr (jlinkVersion b), b, e)"

text \<open>
  Modelled from the spec: a backend class whose four configuration methods are the ones
  above. The specification leaves the other methods (network, installer, upload,
  licence) to the backend, so they are taken from an arbitrary implementation \<open>M\<close>.
\<close>

definition configurable ::
  "('z backend_scheme, 'e, 'cb, 'd) JlinkAbstract \<Rightarrow>
   ('z backend_scheme, 'e, 'cb, 'd) JlinkAbstract" where
  "configurable M =
     M\<lparr>backend_setJlinkPath := JlinkAbstract_setJlinkPath,
       backend_getJlinkPath := JlinkAbstract_getJlinkPath,
       backend_setJlinkVersion := JlinkAbstract_setJlinkVersion,
       backend_getJlinkVersion := JlinkAbstract_getJlinkVersion\<rparr>"

subsection \<open>A test double and a process to run it in\<close>

text \<open>
  A backend without network and without installer, for evaluating the theorems on
  concrete inputs. It remembers the platform it was created for; every operation that
  would leave the process fails with a message; its configuration methods are the ones
  above. Callbacks are numbered.
\<close>

record double = backend +
  double_os :: string
  double_arch :: string

definition offline :: "(double, string, nat, string) JlinkAbstract" where
  "offline =
     \<lparr>backend_new = (\<lambda>os' arch'.
        \<lparr>jlinkPath = [], jlinkVersion = [], double_os = os', double_arch = arch'\<rparr>),
      backend_listLocalInstalled = (\<lambda>b e. (Inr [], b, e)),
      backend_listRemote = (\<lambda>b e. (Inl ''offline'', b, e)),
      backend_download = (\<lambda>v cb b e. (Inl ''offline'', b, e)),
      backend_downloadFromSegger = (\<lambda>v cb b e. (Inl ''offline'', b, e)),
      backend_install = (\<lambda>ip b e. (Inl ''nothing to install'', b, e)),
      backend_downloadAndInstall = (\<lambda>v cb b e. (Inl ''offline'', b, e)),
      backend_getVersion = (\<lambda>b e. (Inl ''not installed'', b, e)),
      backend_upload = (\<lambda>f v cb b e. (Inl ''offline'', b, e)),
      backend_setJlinkPath = JlinkAbstract_setJlinkPath,
      backend_getJlinkPath = JlinkAbstract_getJlinkPath,
      backend_setJlinkVersion = JlinkAbstract_setJlinkVersion,
      backend_getJlinkVersion = JlinkAbstract_getJlinkVersion,
      backend_acceptLicense = (\<lambda>b e. (Inr (), b, e)),
      backend_declineLicense = (\<lambda>b e. (Inr (), b, e)),
      backend_showLicense = (\<lambda>b e. (Inr ''licence'', b, e))\<rparr>"

definition linux_x64 :: "(double, nat) process" where
  "linux_x64 =
     \<lparr>proc_platform = ''linux'', proc_arch = ''x64'', proc_env = Map.empty,
      store = (\<lambda>_. \<lparr>cls = JlinkInstaller,
                     data = \<lparr>jlinkPath = [], jlinkVersion = [],
                             double_os = [], double_arch = []\<rparr>\<rparr>),
      next_ref = 0, delegated = []\<rparr>"

text \<open>
  The facade that \<^verbatim>\<open>new Jlink()\<close> builds in \<open>linux_x64\<close> over the test double, and the
  process state it leaves.
\<close>

definition constructed_facade :: Jlink where
  "constructed_facade =
     \<lparr>installType = ''installer'', os = ''linux'', arch = ''x64'', jlink = 0\<rparr>"

definition constructed_process :: "(double, nat) process" where
  "constructed_process =
     linux_x64\<lparr>store := (store linux_x64)(0 :=
                  \<lparr>cls = JlinkInstaller,
                   data = \<lparr>jlinkPath = [], jlinkVersion = [],
                           double_os = ''linux'', double_arch = ''x64''\<rparr>\<rparr>),
               next_ref := 1\<rparr>"

section \<open>Properties\<close>

subsection \<open>Auxiliary facts\<close>

lemmas facade_defs =
  listLocalInstalled_def listRemote_def download_def downloadFromSegger_def install_def
  downloadAndInstall_def getVersion_def upload_def setJlinkPath_def getJlinkPath_def
  setJlinkVersion_def getJlinkVersion_def acceptLicense_def declineLicense_def
  showLicense_def

lemmas double_defs =
  offline_def linux_x64_def constructed_facade_def constructed_process_def
  JlinkAbstract_setJlinkPath_def JlinkAbstract_getJlinkPath_def
  JlinkAbstract_setJlinkVersion_def JlinkAbstract_getJlinkVersion_def



text \<open>Dropping a value of type \<open>unit\<close> changes nothing.\<close>

lemma discard_unit: "discard r = r" for r :: "('e + unit) \<times> 's"
proof (cases r)
  case (Pair res s)
  then show ?thesis by (cases res) (simp_all add: discard_def)
qed

lemma returning_delegate:
  "returning f (delegate C this c m p) =
     (let r = jlink this; ob = store p r in
      case returning f (m (C (cls ob)) (data ob) (proc_env p)) of
        (res, b', env') \<Rightarrow>
          (res, this,
           p\<lparr>proc_env := env',
             store := (store p)(r := ob\<lparr>data := b'\<rparr>),
             delegated := delegated p @ [(r, c)]\<rparr>))"
  by (simp add: returning_def delegate_def invoke_def Let_def split: prod.splits sum.splits)

lemma fst_delegate:
  "fst (delegate C this c m p) =
     fst (m (C (cls (store p (jlink this)))) (data (store p (jlink this))) (proc_env p))"
  by (simp add: delegate_def invoke_def Let_def split: prod.splits)

lemma Jlink_call_forward: "Jlink_call C c this p = forward C c this (own_effect c p)"
  by (cases c)
    (simp_all add: forward_def own_effect_def returning_delegate discard_unit facade_defs
      Let_def)

lemma store_own_effect: "store (own_effect c p) = store p"
  by (simp add: own_effect_def split: call.splits)


lemma delegated_own_effect: "delegated (own_effect c p) = delegated p"
  by (simp add: own_effect_def split: call.splits)

lemma fst_forward:
  "fst (forward C c this p) =
     fst (backend_call (C (cls (store p (jlink this)))) c (data (store p (jlink this)))
            (proc_env p))"
  by (simp add: forward_def Let_def split: prod.splits)


lemma delegated_forward:
  "delegated (snd (snd (forward C c this p))) = delegated p @ [(jlink this, c)]"
  by (simp add: forward_def Let_def split: prod.splits)



lemma constructor_installer:
  "or_default it_arg ''installer'' = ''installer'' \<Longrightarrow>
   Jlink_constructor C it_arg os_arg arch_arg p =
     (Inr \<lparr>installType = ''installer'', os = or_default os_arg (proc_platform p),
           arch = or_default arch_arg (proc_arch p), jlink = next_ref p\<rparr>,
      p\<lparr>store := (store p)(next_ref p := \<lparr>cls = JlinkInstaller,
           data = backend_new (C JlinkInstaller) (or_default os_arg (proc_platform p))
                    (or_default arch_arg (proc_arch p))\<rparr>),
        next_ref := Suc (next_ref p)\<rparr>)"
  by (simp add: Jlink_constructor_def alloc_def Let_def)

lemma constructor_bundle:
  "or_default it_arg ''installer'' = ''bundle'' \<Longrightarrow>
   Jlink_constructor C it_arg os_arg arch_arg p =
     (Inr \<lparr>installType = ''bundle'', os = or_default os_arg (proc_platform p),
           arch = or_default arch_arg (proc_arch p), jlink = next_ref p\<rparr>,
      p\<lparr>store := (store p)(next_ref p := \<lparr>cls = JlinkBundle,
           data = backend_new (C JlinkBundle) (or_default os_arg (proc_platform p))
                    (or_default arch_arg (proc_arch p))\<rparr>),
        next_ref := Suc (next_ref p)\<rparr>)"
  by (simp add: Jlink_constructor_def alloc_def Let_def)

lemma constructor_invalid:
  "or_default it_arg ''installer'' \<noteq> ''installer'' \<Longrightarrow>
   or_default it_arg ''installer'' \<noteq> ''bundle'' \<Longrightarrow>
   Jlink_constructor C it_arg os_arg arch_arg p = (Inl (Error ''Invalid install type''), p)"
  by (simp add: Jlink_constructor_def Let_def)

lemma constructor_cases:
  assumes "Jlink_constructor C it_arg os_arg arch_arg p = (Inr this, q)"
  obtains k where
    "this = \<lparr>installType = or_default it_arg ''installer'',
             os = or_default os_arg (proc_platform p),
             arch = or_default arch_arg (proc_arch p), jlink = next_ref p\<rparr>"
    "q = p\<lparr>store := (store p)(next_ref p := \<lparr>cls = k,
            data = backend_new (C k) (or_default os_arg (proc_platform p))
                     (or_default arch_arg (proc_arch p))\<rparr>),
          next_ref := Suc (next_ref p)\<rparr>"
proof (cases "or_default it_arg ''installer'' = ''installer''")
  case True
  with assms constructor_installer [OF True, of C os_arg arch_arg p] that [of JlinkInstaller]
  show thesis by simp
next
  case False
  show thesis
  proof (cases "or_default it_arg ''installer'' = ''bundle''")
    case True
    with assms constructor_bundle [OF True, of C os_arg arch_arg p] that [of JlinkBundle]
    show thesis by simp
  next
    case no_bundle: False
    from assms constructor_invalid [OF False no_bundle, of C os_arg arch_arg p]
    show thesis by simp
  qed
qed

lemma offline_configurable: "configurable offline = offline"
  by (simp add: configurable_def offline_def)

lemma constructed:
  "Jlink_constructor (\<lambda>_. offline) None None None linux_x64 =
     (Inr constructed_facade, constructed_process)"
  by (simp add: constructor_installer or_default_def double_defs)

subsection \<open>Construction\<close>

text \<open>
  Claim C1, as the specification states it: every install type string other than
  \<^verbatim>\<open>"installer"\<close> and \<^verbatim>\<open>"bundle"\<close> makes the construction fail with the error
  \<^verbatim>\<open>Invalid install type\<close>, and no backend object is created. The empty string is such
  a string, and the code takes it for an absent argument (\<^verbatim>\<open>installType || "installer"\<close>,
  line 21): the construction returns a facade of install type \<^verbatim>\<open>installer\<close> and a
  backend object has been created.
\<close>

theorem invalid_install_type_counterexample:
  "'''' \<noteq> ''installer'' \<and> '''' \<noteq> ''bundle'' \<and>
   Jlink_constructor (\<lambda>_. offline) (Some '''') None None linux_x64 =
     (Inr constructed_facade, constructed_process) \<and>
   fst (Jlink_constructor (\<lambda>_. offline) (Some '''') None None linux_x64) \<noteq>
     Inl (Error ''Invalid install type'') \<and>
   next_ref (snd (Jlink_constructor (\<lambda>_. offline) (Some '''') None None linux_x64)) \<noteq>
     next_ref linux_x64"
  by (simp add: constructor_installer or_default_def double_defs)

text \<open>
  Claim C1, amended: for every non-empty install type string other than \<^verbatim>\<open>"installer"\<close>
  and \<^verbatim>\<open>"bundle"\<close>, whatever the other two arguments, the construction fails with the
  error \<^verbatim>\<open>Invalid install type\<close> and leaves the process state as it was: no backend
  object is created and no backend method is called.
\<close>

theorem invalid_install_type:
  assumes "it \<noteq> []" and "it \<noteq> ''installer''" and "it \<noteq> ''bundle''"
  shows "Jlink_constructor C (Some it) os_arg arch_arg p =
           (Inl (Error ''Invalid install type''), p)"
proof -
  from assms(1) have "or_default (Some it) ''installer'' = it"
    by (simp add: or_default_def)
  with assms(2,3) show ?thesis
    by (simp add: constructor_invalid)
qed

theorem invalid_install_type_witness:
  "Jlink_constructor (\<lambda>_. offline) (Some ''portable'') (Some ''darwin'') None linux_x64 =
     (Inl (Error ''Invalid install type''), linux_x64)"
  by (rule invalid_install_type) simp_all

text \<open>
  Claim C7: with no install type the facade's install type is \<^verbatim>\<open>installer\<close> and the
  object created is a \<^verbatim>\<open>JlinkInstaller\<close>; with \<^verbatim>\<open>"bundle"\<close> it is a \<^verbatim>\<open>JlinkBundle\<close>. In
  both cases the backend's constructor receives the resolved operating system and
  architecture (the argument, or the value of the process where the argument is absent),
  which are also the facade's fields, and the facade holds the reference to the new
  object.
\<close>

theorem constructor_selects_backend:
  "Jlink_constructor C None os_arg arch_arg p =
     (Inr \<lparr>installType = ''installer'', os = or_default os_arg (proc_platform p),
           arch = or_default arch_arg (proc_arch p), jlink = next_ref p\<rparr>,
      p\<lparr>store := (store p)(next_ref p := \<lparr>cls = JlinkInstaller,
           data = backend_new (C JlinkInstaller) (or_default os_arg (proc_platform p))
                    (or_default arch_arg (proc_arch p))\<rparr>),
        next_ref := Suc (next_ref p)\<rparr>) \<and>
   Jlink_constructor C (Some ''bundle'') os_arg arch_arg p =
     (Inr \<lparr>installType = ''bundle'', os = or_default os_arg (proc_platform p),
           arch = or_default arch_arg (proc_arch p), jlink = next_ref p\<rparr>,
      p\<lparr>store := (store p)(next_ref p := \<lparr>cls = JlinkBundle,
           data = backend_new (C JlinkBundle) (or_default os_arg (proc_platform p))
                    (or_default arch_arg (proc_arch p))\<rparr>),
        next_ref := Suc (next_ref p)\<rparr>)"
proof
  have "or_default None ''installer'' = ''installer''"
    by (simp add: or_default_def)
  then show "Jlink_constructor C None os_arg arch_arg p =
     (Inr \<lparr>installType = ''installer'', os = or_default os_arg (proc_platform p),
           arch = or_default arch_arg (proc_arch p), jlink = next_ref p\<rparr>,
      p\<lparr>store := (store p)(next_ref p := \<lparr>cls = JlinkInstaller,
           data = backend_new (C JlinkInstaller) (or_default os_arg (proc_platform p))
                    (or_default arch_arg (proc_arch p))\<rparr>),
        next_ref := Suc (next_ref p)\<rparr>)"
    by (rule constructor_installer)
next
  have "or_default (Some ''bundle'') ''installer'' = ''bundle''"
    by (simp add: or_default_def)
  then show "Jlink_constructor C (Some ''bundle'') os_arg arch_arg p =
     (Inr \<lparr>installType = ''bundle'', os = or_default os_arg (proc_platform p),
           arch = or_default arch_arg (proc_arch p), jlink = next_ref p\<rparr>,
      p\<lparr>store := (store p)(next_ref p := \<lparr>cls = JlinkBundle,
           data = backend_new (C JlinkBundle) (or_default os_arg (proc_platform p))
                    (or_default arch_arg (proc_arch p))\<rparr>),
        next_ref := Suc (next_ref p)\<rparr>)"
    by (rule constructor_bundle)
qed

text \<open>
  On the test double: \<^verbatim>\<open>new Jlink("bundle", undefined, "arm64")\<close> on Linux creates a
  \<^verbatim>\<open>JlinkBundle\<close> for \<^verbatim>\<open>linux\<close> and \<^verbatim>\<open>arm64\<close>.
\<close>

theorem constructor_selects_backend_witness:
  "fst (Jlink_constructor (\<lambda>_. offline) (Some ''bundle'') None (Some ''arm64'') linux_x64) =
     Inr \<lparr>installType = ''bundle'', os = ''linux'', arch = ''arm64'', jlink = 0\<rparr> \<and>
   store (snd (Jlink_constructor (\<lambda>_. offline) (Some ''bundle'') None (Some ''arm64'')
            linux_x64)) 0 =
     \<lparr>cls = JlinkBundle,
      data = \<lparr>jlinkPath = [], jlinkVersion = [],
              double_os = ''linux'', double_arch = ''arm64''\<rparr>\<rparr>"
  using constructor_selects_backend [of "\<lambda>_. offline" None "Some ''arm64''" linux_x64]
  by (simp add: or_default_def double_defs)

text \<open>
  Claim C8: when neither an operating system nor an architecture is supplied, the fields
  \<^verbatim>\<open>os\<close> and \<^verbatim>\<open>arch\<close> of the constructed facade are \<^verbatim>\<open>process.platform\<close> and
  \<^verbatim>\<open>process.arch\<close> as they are when the constructor runs.
\<close>

theorem constructor_ambient_platform:
  assumes "Jlink_constructor C it_arg None None p = (Inr this, q)"
  shows "os this = proc_platform p \<and> arch this = proc_arch p"
proof -
  from assms obtain k where
    "this = \<lparr>installType = or_default it_arg ''installer'',
             os = or_default None (proc_platform p),
             arch = or_default None (proc_arch p), jlink = next_ref p\<rparr>"
    "q = p\<lparr>store := (store p)(next_ref p := \<lparr>cls = k,
            data = backend_new (C k) (or_default None (proc_platform p))
                     (or_default None (proc_arch p))\<rparr>),
          next_ref := Suc (next_ref p)\<rparr>"
    by (rule constructor_cases)
  then show ?thesis
    by (simp add: or_default_def)
qed

theorem constructor_ambient_platform_witness:
  "os constructed_facade = proc_platform linux_x64 \<and>
   arch constructed_facade = proc_arch linux_x64"
  by (rule constructor_ambient_platform [OF constructed])

text \<open>
  Claim C10: the empty string as install type does not raise the error. The constructor
  does what it does with no install type at all: the install type of the facade is
  \<^verbatim>\<open>installer\<close> and the object created is a \<^verbatim>\<open>JlinkInstaller\<close>.
\<close>

theorem empty_install_type_is_absent:
  "Jlink_constructor C (Some '''') os_arg arch_arg p =
     Jlink_constructor C None os_arg arch_arg p \<and>
   fst (Jlink_constructor C (Some '''') os_arg arch_arg p) =
     Inr \<lparr>installType = ''installer'', os = or_default os_arg (proc_platform p),
          arch = or_default arch_arg (proc_arch p), jlink = next_ref p\<rparr> \<and>
   cls (store (snd (Jlink_constructor C (Some '''') os_arg arch_arg p)) (next_ref p)) =
     JlinkInstaller"
proof -
  have absent: "or_default (Some '''') ''installer'' = ''installer''"
    and none: "or_default None ''installer'' = ''installer''"
    by (simp_all add: or_default_def)
  show ?thesis
    by (simp add: constructor_installer [OF absent] constructor_installer [OF none])
qed

text \<open>
  On the test double: \<^verbatim>\<open>new Jlink("", "win32", "x64")\<close> returns an installer facade.
\<close>

theorem empty_install_type_is_absent_witness:
  "fst (Jlink_constructor (\<lambda>_. offline) (Some '''') (Some ''win32'') (Some ''x64'')
          linux_x64) =
     Inr \<lparr>installType = ''installer'', os = ''win32'', arch = ''x64'', jlink = 0\<rparr> \<and>
   cls (store (snd (Jlink_constructor (\<lambda>_. offline) (Some '''') (Some ''win32'')
          (Some ''x64'') linux_x64)) 0) = JlinkInstaller"
proof -
  note on_windows = empty_install_type_is_absent
    [where C = "\<lambda>_. offline" and os_arg = "Some ''win32''" and arch_arg = "Some ''x64''"
      and p = linux_x64]
  from on_windows [THEN conjunct2] show ?thesis
    by (simp add: or_default_def linux_x64_def)
qed

subsection \<open>Delegation\<close>

text \<open>
  Claim C2: for every operation and every tuple of arguments, a call on the facade is
  one call of the operation of the same name on the backend object the facade holds,
  of that object's class, with the same arguments, and the outcome of the facade is the
  backend's outcome. \<open>forward\<close> says this in the specification's words; the call is run
  in the state the facade's own effect leaves, which differs from the caller's state
  for \<^verbatim>\<open>setJlinkPath\<close> only. The six operations whose body has no \<^verbatim>\<open>return\<close>
  (\<^verbatim>\<open>install\<close>, \<^verbatim>\<open>downloadAndInstall\<close>, \<^verbatim>\<open>setJlinkPath\<close>, \<^verbatim>\<open>setJlinkVersion\<close>,
  \<^verbatim>\<open>acceptLicense\<close>, \<^verbatim>\<open>declineLicense\<close>) have no result in the specification's table:
  their value is \<^verbatim>\<open>undefined\<close> on both sides.
\<close>

theorem facade_forwards:
  "Jlink_call C c this p = forward C c this (own_effect c p)"
proof (cases c)
  case (SetJlinkPath path)
  then show ?thesis
    by (simp add: setJlinkPath_def forward_def own_effect_def returning_delegate
        discard_unit Let_def)
next
  case (Install installPath)
  then show ?thesis
    by (simp add: install_def forward_def own_effect_def returning_delegate
        discard_unit Let_def)
next
  case (DownloadAndInstall version progressUpdate)
  then show ?thesis
    by (simp add: downloadAndInstall_def forward_def own_effect_def returning_delegate
        discard_unit Let_def)
next
  case (SetJlinkVersion version)
  then show ?thesis
    by (simp add: setJlinkVersion_def forward_def own_effect_def returning_delegate
        discard_unit Let_def)
qed (simp_all add: facade_defs forward_def own_effect_def returning_delegate
      discard_unit Let_def)

text \<open>
  On the test double: an upload through the constructed facade is recorded as that one
  call, with the three arguments as given, and fails as the double's upload does.
\<close>

theorem facade_forwards_witness:
  "fst (Jlink_call (\<lambda>_. offline) (Upload ''JLink.tgz'' ''7.94'' (Some 3))
          constructed_facade constructed_process) = Inl ''offline'' \<and>
   delegated (snd (snd (Jlink_call (\<lambda>_. offline) (Upload ''JLink.tgz'' ''7.94'' (Some 3))
          constructed_facade constructed_process))) =
     [(0, Upload ''JLink.tgz'' ''7.94'' (Some 3))]"
  using facade_forwards [of "\<lambda>_. offline" "Upload ''JLink.tgz'' ''7.94'' (Some 3)"
      constructed_facade constructed_process]
  by (simp add: fst_forward delegated_forward delegated_own_effect store_own_effect
      own_effect_def returning_def double_defs)

text \<open>
  Claim C3: if \<^verbatim>\<open>listRemote\<close> of the backend fails with \<open>e\<close>, so does \<^verbatim>\<open>listRemote\<close> of
  the facade, with the same \<open>e\<close>. For every operation: if the backend's operation fails
  with \<open>e\<close>, the facade's operation fails with \<open>e\<close>, and the backend has been called
  once (nothing is tried again).
\<close>

theorem backend_failure_propagates:
  "(fst (backend_listRemote (C (cls (store p (jlink this)))) (data (store p (jlink this)))
          (proc_env p)) = Inl e \<longrightarrow>
      fst (listRemote C this p) = Inl e) \<and>
   (fst (backend_call (C (cls (store p (jlink this)))) c (data (store p (jlink this)))
          (proc_env (own_effect c p))) = Inl e \<longrightarrow>
      fst (Jlink_call C c this p) = Inl e \<and>
      delegated (snd (snd (Jlink_call C c this p))) = delegated p @ [(jlink this, c)])"
proof (intro conjI impI)
  assume "fst (backend_listRemote (C (cls (store p (jlink this))))
            (data (store p (jlink this))) (proc_env p)) = Inl e"
  then show "fst (listRemote C this p) = Inl e"
    by (simp add: listRemote_def fst_delegate)
next
  assume "fst (backend_call (C (cls (store p (jlink this)))) c
            (data (store p (jlink this))) (proc_env (own_effect c p))) = Inl e"
  then show "fst (Jlink_call C c this p) = Inl e"
    by (simp add: Jlink_call_forward fst_forward store_own_effect)
next
  show "delegated (snd (snd (Jlink_call C c this p))) = delegated p @ [(jlink this, c)]"
    by (simp add: Jlink_call_forward delegated_forward delegated_own_effect)
qed

theorem backend_failure_propagates_witness:
  "fst (listRemote (\<lambda>_. offline) constructed_facade constructed_process) = Inl ''offline'' \<and>
   fst (Jlink_call (\<lambda>_. offline) (Install None) constructed_facade constructed_process) =
     Inl ''nothing to install'' \<and>
   delegated (snd (snd (Jlink_call (\<lambda>_. offline) (Install None)
     constructed_facade constructed_process))) = [(0, Install None)]"
proof -
  have remote: "fst (backend_listRemote
      ((\<lambda>_. offline) (cls (store constructed_process (jlink constructed_facade))))
      (data (store constructed_process (jlink constructed_facade)))
      (proc_env constructed_process)) = Inl ''offline''"
    by (simp add: double_defs)
  have inst: "fst (backend_call
      ((\<lambda>_. offline) (cls (store constructed_process (jlink constructed_facade))))
      (Install None)
      (data (store constructed_process (jlink constructed_facade)))
      (proc_env (own_effect (Install None) constructed_process))) = Inl ''nothing to install''"
    by (simp add: returning_def double_defs)
  from remote inst
    backend_failure_propagates [of "\<lambda>_. offline" constructed_process constructed_facade
      "''offline''" "Install None"]
    backend_failure_propagates [of "\<lambda>_. offline" constructed_process constructed_facade
      "''nothing to install''" "Install None"]
  show ?thesis
    by (simp add: double_defs)
qed



subsection \<open>Library path and version\<close>





text \<open>
  Claim C5: for every string \<open>X\<close>, on a backend with the configuration methods of the
  specification, \<^verbatim>\<open>getJlinkPath\<close> called on the same facade right after
  \<^verbatim>\<open>setJlinkPath(X)\<close> returns \<open>X\<close>.
\<close>

theorem setJlinkPath_getJlinkPath:
  "case setJlinkPath (\<lambda>k. configurable (M k)) this X p of
     (res, this', p') \<Rightarrow> fst (getJlinkPath (\<lambda>k. configurable (M k)) this' p') = Inr X"
  by (simp add: setJlinkPath_def getJlinkPath_def discard_unit delegate_def invoke_def
      configurable_def JlinkAbstract_setJlinkPath_def JlinkAbstract_getJlinkPath_def Let_def)

theorem setJlinkPath_getJlinkPath_witness:
  "fst (getJlinkPath (\<lambda>_. offline) constructed_facade
     (snd (snd (setJlinkPath (\<lambda>_. offline) constructed_facade ''C:/SEGGER/JLink''
        constructed_process)))) = Inr ''C:/SEGGER/JLink''"
  using setJlinkPath_getJlinkPath
    [where M = "\<lambda>_. offline" and this = constructed_facade
      and X = "''C:/SEGGER/JLink''" and p = constructed_process]
  by (auto simp: offline_configurable setJlinkPath_def discard_unit delegate_def
      split: prod.splits)

text \<open>
  Claim C6: for every version string \<open>v\<close>, and so for \<^verbatim>\<open>"1.2.3"\<close>, on a backend with the
  configuration methods of the specification, \<^verbatim>\<open>getJlinkVersion\<close> called on the same
  facade right after \<^verbatim>\<open>setJlinkVersion(v)\<close> returns \<open>v\<close>.
\<close>

theorem setJlinkVersion_getJlinkVersion:
  "(case setJlinkVersion (\<lambda>k. configurable (M k)) this v p of
     (res, this', p') \<Rightarrow>
       fst (getJlinkVersion (\<lambda>k. configurable (M k)) this' p') = Inr v) \<and>
   (case setJlinkVersion (\<lambda>k. configurable (M k)) this ''1.2.3'' p of
     (res, this', p') \<Rightarrow>
       fst (getJlinkVersion (\<lambda>k. configurable (M k)) this' p') = Inr ''1.2.3'')"
  by (simp add: setJlinkVersion_def getJlinkVersion_def discard_unit delegate_def invoke_def
      configurable_def JlinkAbstract_setJlinkVersion_def JlinkAbstract_getJlinkVersion_def
      Let_def)

theorem setJlinkVersion_getJlinkVersion_witness:
  "fst (getJlinkVersion (\<lambda>_. offline) constructed_facade
     (snd (snd (setJlinkVersion (\<lambda>_. offline) constructed_facade ''1.2.3''
        constructed_process)))) = Inr ''1.2.3''"
  using setJlinkVersion_getJlinkVersion
    [where M = "\<lambda>_. offline" and this = constructed_facade
      and v = "''1.2.3''" and p = constructed_process]
  by (auto simp: offline_configurable setJlinkVersion_def discard_unit delegate_def
      split: prod.splits)

end
